theory Spec2Isabelle
  imports Main "HOL-Library.AList" "HOL-Library.Sublist"
begin

section \<open>Errors and JSON\<close>

text \<open>
  The errors the adapter hands to its callback: a thrown \<open>Error\<close> with its message, the
  runtime's \<open>TypeError\<close> and \<open>SyntaxError\<close>, and the storage client's not-found and
  unique-constraint errors. \<open>OutOfModel\<close> marks an input this development does not
  interpret: a number that is not an integer of at most 2^53 in magnitude, a \<open>\u\<close> escape
  above 127, an array or string used in the place of an object.
\<close>

datatype error =
    Error string
  | TypeError
  | SyntaxError
  | NotFoundError
  | UniqueConstraintError
  | OutOfModel

text \<open>
  A JSON value. Strings are byte strings (UTF-8), numbers are integers, and an object is
  the list of its members in insertion order.
\<close>

datatype json =
    JNull
  | JBool bool
  | JNum int
  | JStr string
  | JArr "json list"
  | JObj "(string \<times> json) list"

text \<open>Sequencing of computations that may throw.\<close>

definition bind_res :: "error + 'a \<Rightarrow> ('a \<Rightarrow> error + 'b) \<Rightarrow> error + 'b" where
  "bind_res m f = (case m of Inl e \<Rightarrow> Inl e | Inr x \<Rightarrow> f x)"

text \<open>
  \<open>JSON.parse\<close> on a text: white space between tokens, the three literals, numbers,
  strings with their escapes, arrays and objects. The functions return the value read
  and the rest of the text.
\<close>

definition is_ws :: "char \<Rightarrow> bool" where
  "is_ws c = (c = CHR 0x20 \<or> c = CHR 0x09 \<or> c = CHR 0x0A \<or> c = CHR 0x0D)"

definition skip_ws :: "string \<Rightarrow> string" where
  "skip_ws s = dropWhile is_ws s"

definition is_digit :: "char \<Rightarrow> bool" where
  "is_digit c = (48 \<le> (of_char c :: nat) \<and> (of_char c :: nat) \<le> 57)"

definition digit_val :: "char \<Rightarrow> int" where
  "digit_val c = int (of_char c) - 48"

definition digit_char :: "nat \<Rightarrow> char" where
  "digit_char d = char_of (48 + d)"

definition int_of_digits :: "string \<Rightarrow> int" where
  "int_of_digits ds = foldl (\<lambda>a c. 10 * a + digit_val c) 0 ds"

fun show_nat :: "nat \<Rightarrow> string" where
  "show_nat n = (if n < 10 then [digit_char n] else show_nat (n div 10) @ [digit_char (n mod 10)])"

declare show_nat.simps [simp del]

definition show_int :: "int \<Rightarrow> string" where
  "show_int i = (if i < 0 then CHR ''-'' # show_nat (nat (- i)) else show_nat (nat i))"

definition hex_val :: "char \<Rightarrow> nat option" where
  "hex_val c =
     (let n = (of_char c :: nat) in
      if 48 \<le> n \<and> n \<le> 57 then Some (n - 48)
      else if 97 \<le> n \<and> n \<le> 102 then Some (n - 87)
      else if 65 \<le> n \<and> n \<le> 70 then Some (n - 55)
      else None)"

definition hex_char :: "nat \<Rightarrow> char" where
  "hex_char d = (if d < 10 then char_of (48 + d) else char_of (87 + d))"

definition escape_char :: "char \<Rightarrow> string" where
  "escape_char c =
     (let n = (of_char c :: nat) in
      if n = 8 then [CHR 0x5C, CHR ''b'']
      else if n = 9 then [CHR 0x5C, CHR ''t'']
      else if n = 10 then [CHR 0x5C, CHR ''n'']
      else if n = 12 then [CHR 0x5C, CHR ''f'']
      else if n = 13 then [CHR 0x5C, CHR ''r'']
      else if n = 34 then [CHR 0x5C, CHR 0x22]
      else if n = 92 then [CHR 0x5C, CHR 0x5C]
      else if n < 32 then
        [CHR 0x5C, CHR ''u'', CHR ''0'', CHR ''0'', hex_char (n div 16), hex_char (n mod 16)]
      else [c])"

definition quote :: "string \<Rightarrow> string" where
  "quote s = CHR 0x22 # concat (map escape_char s) @ [CHR 0x22]"

definition unescape :: "char \<Rightarrow> char option" where
  "unescape e =
     (if e = CHR 0x22 then Some (CHR 0x22)
      else if e = CHR 0x5C then Some (CHR 0x5C)
      else if e = CHR ''/'' then Some (CHR ''/'')
      else if e = CHR ''b'' then Some (CHR 0x08)
      else if e = CHR ''f'' then Some (CHR 0x0C)
      else if e = CHR ''n'' then Some (CHR 0x0A)
      else if e = CHR ''r'' then Some (CHR 0x0D)
      else if e = CHR ''t'' then Some (CHR 0x09)
      else None)"

definition hex4 :: "char \<Rightarrow> char \<Rightarrow> char \<Rightarrow> char \<Rightarrow> nat option" where
  "hex4 a b c d =
     (case (hex_val a, hex_val b, hex_val c, hex_val d) of
        (Some w, Some x, Some y, Some z) \<Rightarrow> Some (((w * 16 + x) * 16 + y) * 16 + z)
      | _ \<Rightarrow> None)"

text \<open>
  The characters of a string after its opening quote, up to the closing quote. A raw
  control character is a syntax error.
\<close>

fun parse_chars :: "string \<Rightarrow> error + (string \<times> string)" where
  "parse_chars [] = Inl SyntaxError"
| "parse_chars (c # cs) =
     (if c = CHR 0x22 then Inr ([], cs)
      else if c = CHR 0x5C then
        (case cs of
           [] \<Rightarrow> Inl SyntaxError
         | e # es \<Rightarrow>
             if e = CHR ''u'' then
               (case es of
                  h1 # h2 # h3 # h4 # rest \<Rightarrow>
                    (case hex4 h1 h2 h3 h4 of
                       None \<Rightarrow> Inl SyntaxError
                     | Some code \<Rightarrow>
                         if code < 128 then
                           (case parse_chars rest of
                              Inl x \<Rightarrow> Inl x
                            | Inr (str, r) \<Rightarrow> Inr (char_of code # str, r))
                         else Inl OutOfModel)
                | _ \<Rightarrow> Inl SyntaxError)
             else
               (case unescape e of
                  None \<Rightarrow> Inl SyntaxError
                | Some ch \<Rightarrow>
                    (case parse_chars es of
                       Inl x \<Rightarrow> Inl x
                     | Inr (str, r) \<Rightarrow> Inr (ch # str, r))))
      else if (of_char c :: nat) < 32 then Inl SyntaxError
      else
        (case parse_chars cs of
           Inl x \<Rightarrow> Inl x
         | Inr (str, r) \<Rightarrow> Inr (c # str, r)))"

text \<open>
  A number: an optional minus sign and the digits of an integer, where a leading zero
  stands alone. A fraction or an exponent, and a magnitude above 2^53, are outside the
  model.
\<close>

definition parse_number :: "string \<Rightarrow> error + (json \<times> string)" where
  "parse_number s =
     (let (neg, s1) = (case s of [] \<Rightarrow> (False, s)
                       | c # cs \<Rightarrow> if c = CHR ''-'' then (True, cs) else (False, s));
          (ds, r) = (case s1 of [] \<Rightarrow> ([], [])
                     | c # cs \<Rightarrow> if c = CHR ''0'' then ([c], cs)
                               else (takeWhile is_digit s1, dropWhile is_digit s1))
      in if ds = [] then Inl SyntaxError
         else if (case r of [] \<Rightarrow> False
                  | c # _ \<Rightarrow> c = CHR ''.'' \<or> c = CHR ''e'' \<or> c = CHR ''E'') then Inl OutOfModel
         else if int_of_digits ds > 9007199254740992 then Inl OutOfModel
         else Inr (JNum (if neg then - int_of_digits ds else int_of_digits ds), r))"

text \<open>
  The members of an object as \<open>JSON.parse\<close> stores them: a repeated key keeps its
  first place and takes its last value.
\<close>

definition make_object :: "(string \<times> json) list \<Rightarrow> (string \<times> json) list" where
  "make_object ms = foldl (\<lambda>acc (k, v). AList.update k v acc) [] ms"

text \<open>
  Values, array elements and object members. The first argument bounds the depth of the
  recursion; \<open>JSON_parse\<close> starts it above the length of the text.
\<close>

fun parse_value :: "nat \<Rightarrow> string \<Rightarrow> error + (json \<times> string)"
and parse_elems :: "nat \<Rightarrow> string \<Rightarrow> error + (json list \<times> string)"
and parse_members :: "nat \<Rightarrow> string \<Rightarrow> error + ((string \<times> json) list \<times> string)" where
  "parse_value 0 s = Inl OutOfModel"
| "parse_value (Suc n) s =
     (case skip_ws s of
        [] \<Rightarrow> Inl SyntaxError
      | c # cs \<Rightarrow>
          if c = CHR ''{'' then
            (case skip_ws cs of
               [] \<Rightarrow> Inl SyntaxError
             | d # ds \<Rightarrow>
                 if d = CHR ''}'' then Inr (JObj [], ds)
                 else bind_res (parse_members n cs) (\<lambda>(ms, r). Inr (JObj (make_object ms), r)))
          else if c = CHR ''['' then
            (case skip_ws cs of
               [] \<Rightarrow> Inl SyntaxError
             | d # ds \<Rightarrow>
                 if d = CHR '']'' then Inr (JArr [], ds)
                 else bind_res (parse_elems n cs) (\<lambda>(vs, r). Inr (JArr vs, r)))
          else if c = CHR 0x22 then
            bind_res (parse_chars cs) (\<lambda>(str, r). Inr (JStr str, r))
          else if c = CHR ''t'' then
            (if take 3 cs = ''rue'' then Inr (JBool True, drop 3 cs) else Inl SyntaxError)
          else if c = CHR ''f'' then
            (if take 4 cs = ''alse'' then Inr (JBool False, drop 4 cs) else Inl SyntaxError)
          else if c = CHR ''n'' then
            (if take 3 cs = ''ull'' then Inr (JNull, drop 3 cs) else Inl SyntaxError)
          else if c = CHR ''-'' \<or> is_digit c then parse_number (c # cs)
          else Inl SyntaxError)"
| "parse_elems 0 s = Inl OutOfModel"
| "parse_elems (Suc n) s =
     bind_res (parse_value n s) (\<lambda>(v, r).
       case skip_ws r of
         [] \<Rightarrow> Inl SyntaxError
       | c # cs \<Rightarrow>
           if c = CHR '','' then bind_res (parse_elems n cs) (\<lambda>(vs, r'). Inr (v # vs, r'))
           else if c = CHR '']'' then Inr ([v], cs)
           else Inl SyntaxError)"
| "parse_members 0 s = Inl OutOfModel"
| "parse_members (Suc n) s =
     (case skip_ws s of
        [] \<Rightarrow> Inl SyntaxError
      | q # qs \<Rightarrow>
          if q = CHR 0x22 then
            bind_res (parse_chars qs) (\<lambda>(k, r).
              case skip_ws r of
                [] \<Rightarrow> Inl SyntaxError
              | d # ds \<Rightarrow>
                  if d = CHR '':'' then
                    bind_res (parse_value n ds) (\<lambda>(v, r').
                      case skip_ws r' of
                        [] \<Rightarrow> Inl SyntaxError
                      | e # es \<Rightarrow>
                          if e = CHR '','' then
                            bind_res (parse_members n es) (\<lambda>(ms, r''). Inr ((k, v) # ms, r''))
                          else if e = CHR ''}'' then Inr ([(k, v)], es)
                          else Inl SyntaxError)
                  else Inl SyntaxError)
          else Inl SyntaxError)"

definition JSON_parse :: "string \<Rightarrow> error + json" where
  "JSON_parse s =
     bind_res (parse_value (Suc (length s)) s)
       (\<lambda>(v, r). if skip_ws r = [] then Inr v else Inl SyntaxError)"

text \<open>\<open>JSON.stringify\<close> of a value: no white space, members in their order.\<close>

fun JSON_stringify :: "json \<Rightarrow> string"
and stringify_elems :: "json list \<Rightarrow> string"
and stringify_members :: "(string \<times> json) list \<Rightarrow> string" where
  "JSON_stringify JNull = ''null''"
| "JSON_stringify (JBool b) = (if b then ''true'' else ''false'')"
| "JSON_stringify (JNum i) = show_int i"
| "JSON_stringify (JStr s) = quote s"
| "JSON_stringify (JArr vs) = CHR ''['' # stringify_elems vs @ '']''"
| "JSON_stringify (JObj ms) = CHR ''{'' # stringify_members ms @ ''}''"
| "stringify_elems [] = []"
| "stringify_elems [v] = JSON_stringify v"
| "stringify_elems (v # w # vs) = JSON_stringify v @ CHR '','' # stringify_elems (w # vs)"
| "stringify_members [] = []"
| "stringify_members [(k, v)] = quote k @ CHR '':'' # JSON_stringify v"
| "stringify_members ((k, v) # m # ms) =
     quote k @ CHR '':'' # JSON_stringify v @ CHR '','' # stringify_members (m # ms)"



section \<open>Values read off parsed JSON\<close>

text \<open>
  Property access on a parsed JSON value. Objects are association lists in insertion
  order with own properties only: inherited names (\<open>__proto__\<close>, \<open>constructor\<close>) and the
  integer-like keys that JavaScript enumerates first are outside this model. A missing
  property reads as \<open>undefined\<close>, written \<open>None\<close>.
\<close>

definition js_get :: "json \<Rightarrow> string \<Rightarrow> json option" where
  "js_get j k = (case j of JObj m \<Rightarrow> map_of m k | _ \<Rightarrow> None)"

fun truthy :: "json option \<Rightarrow> bool" where
  "truthy None = False"
| "truthy (Some JNull) = False"
| "truthy (Some (JBool b)) = b"
| "truthy (Some (JNum i)) = (i \<noteq> 0)"
| "truthy (Some (JStr s)) = (s \<noteq> [])"
| "truthy (Some (JArr vs)) = True"
| "truthy (Some (JObj ms)) = True"

text \<open>\<open>ToString\<close> of a nullable text column, as \<open>JSON.parse\<close> applies it to its argument.\<close>

definition ToString :: "string option \<Rightarrow> string" where
  "ToString v = (case v of None \<Rightarrow> ''null'' | Some s \<Rightarrow> s)"

text \<open>
  The assignment \<open>o[key] = value\<close> on an object, as \<open>JSON.stringify\<close> sees the result: an
  existing key keeps its place, a new key goes last, and a property set to \<open>undefined\<close> is
  not serialised.
\<close>

definition assign_prop :: "(string \<times> json) list \<Rightarrow> string \<Rightarrow> json option \<Rightarrow> (string \<times> json) list" where
  "assign_prop e k v = (case v of None \<Rightarrow> AList.delete k e | Some w \<Rightarrow> AList.update k w e)"

text \<open>
  \<open>columnMeta[viewId][key] = value\<close> in the strict code of a class body: reading a
  property of \<open>null\<close>, and setting one on \<open>undefined\<close>, \<open>null\<close> or a primitive, is a
  \<open>TypeError\<close>. Arrays and strings in the place of an object are outside the model.
\<close>

definition assign_nested :: "json \<Rightarrow> string \<Rightarrow> string \<Rightarrow> json option \<Rightarrow> error + json" where
  "assign_nested columnMeta viewId k v =
     (case columnMeta of
        JObj m \<Rightarrow>
          (case map_of m viewId of
             None \<Rightarrow> Inl TypeError
           | Some (JObj e) \<Rightarrow> Inr (JObj (AList.update viewId (JObj (assign_prop e k v)) m))
           | Some (JArr vs) \<Rightarrow> Inl OutOfModel
           | Some _ \<Rightarrow> Inl TypeError)
      | JArr vs \<Rightarrow> Inl OutOfModel
      | JStr s \<Rightarrow> Inl OutOfModel
      | _ \<Rightarrow> Inl TypeError)"

text \<open>\<open>Object.entries\<close> of a parsed JSON value (\<open>None\<close> is \<open>undefined\<close>).\<close>

definition Object_entries :: "json option \<Rightarrow> error + (string \<times> json) list" where
  "Object_entries v =
     (case v of
        None \<Rightarrow> Inl TypeError
      | Some JNull \<Rightarrow> Inl TypeError
      | Some (JObj m) \<Rightarrow> Inr m
      | Some (JArr vs) \<Rightarrow> Inr (zip (map show_nat [0..<length vs]) vs)
      | Some (JStr s) \<Rightarrow> Inr (zip (map show_nat [0..<length s]) (map (\<lambda>c. JStr [c]) s))
      | Some _ \<Rightarrow> Inr [])"

fun indexOf :: "'a list \<Rightarrow> 'a \<Rightarrow> int" where
  "indexOf [] x = - 1"
| "indexOf (y # ys) x = (if y = x then 0 else if indexOf ys x < 0 then - 1 else indexOf ys x + 1)"

fun split_on :: "char \<Rightarrow> string \<Rightarrow> string list" where
  "split_on sep [] = [[]]"
| "split_on sep (c # cs) =
     (if c = sep then [] # split_on sep cs
      else (case split_on sep cs of [] \<Rightarrow> [[c]] | p # ps \<Rightarrow> (c # p) # ps))"

fun map_res :: "('a \<Rightarrow> error + 'b) \<Rightarrow> 'a list \<Rightarrow> error + 'b list" where
  "map_res f [] = Inr []"
| "map_res f (x # xs) =
     (case f x of
        Inl e \<Rightarrow> Inl e
      | Inr y \<Rightarrow> (case map_res f xs of Inl e \<Rightarrow> Inl e | Inr ys \<Rightarrow> Inr (y # ys)))"

section \<open>Storage\<close>

text \<open>
  The tables the adapter reaches through the Prisma client. A table is the list of its
  rows in storage order. The row records are extensible: the columns the adapter never
  names are the \<open>more\<close> part of a row. The tables behind the record and table services
  are the opaque component \<open>other_tables\<close>.
\<close>

record ops_row =
  ops_collection :: string
  ops_docId :: string
  ops_version :: int
  ops_operation :: string

record field_row =
  field_id :: string
  field_tableId :: string
  field_name :: string
  field_version :: int
  field_columnMeta :: string

record view_row =
  view_id :: string
  view_tableId :: string
  view_version :: int
  view_type :: string
  view_description :: "string option"
  view_filter :: "string option"
  view_sort :: "string option"
  view_group :: "string option"
  view_options :: "string option"
  view_order :: int

record ('f, 'v, 'x) docs =
  field_table :: "'f field_row_scheme list"
  view_table :: "'v view_row_scheme list"
  other_tables :: 'x

record ('f, 'v, 'x) prisma =
  ops_table :: "ops_row list"
  documents :: "('f, 'v, 'x) docs"

section \<open>Snapshots and operation contexts\<close>

record 'v view_vo =
  vo_row :: "'v view_row_scheme"
  vo_type :: string
  vo_description :: "string option"
  vo_filter :: json
  vo_sort :: json
  vo_group :: json
  vo_options :: json

datatype ('r, 'v) snapshot_data =
    RecordData 'r
  | FieldData json json
  | ViewData "'v view_vo" int
  | AggregateData int

record ('r, 'v) ISnapshotBase =
  sb_id :: string
  sb_v :: int
  sb_type :: string
  sb_data :: "('r, 'v) snapshot_data"

record ('r, 'v) Snapshot =
  snap_id :: string
  snap_v :: int
  snap_type :: "string option"
  snap_data :: "('r, 'v) snapshot_data option"
  snap_m :: "unit option"

record ICollectionSnapshot =
  cs_type :: string
  cs_v :: int
  cs_data :: json

datatype OpName =
    SetRecordOrder
  | SetRecord
  | SetColumnMeta
  | AddColumnMeta
  | SetFieldName
  | OtherOp string

datatype op_context =
    SetRecordOrderCtx string int
  | SetRecordCtx json
  | SetColumnMetaCtx string string "json option"
  | AddColumnMetaCtx string "json option"
  | SetFieldNameCtx string
  | OtherCtx string json

fun ctx_name :: "op_context \<Rightarrow> OpName" where
  "ctx_name (SetRecordOrderCtx viewId newOrder) = SetRecordOrder"
| "ctx_name (SetRecordCtx payload) = SetRecord"
| "ctx_name (SetColumnMetaCtx metaKey viewId newMetaValue) = SetColumnMeta"
| "ctx_name (AddColumnMetaCtx viewId newMetaValue) = AddColumnMeta"
| "ctx_name (SetFieldNameCtx newName) = SetFieldName"
| "ctx_name (OtherCtx name payload) = OtherOp name"

type_synonym IProjection = "string \<rightharpoonup> bool"

section \<open>Collaborators outside the adapter's file\<close>

text \<open>
  The exports of the core package that the adapter uses are defined outside the
  adapter's file: the identifier prefixes, the aggregate keys and the decomposition of an
  edit into contexts are parameters.
\<close>

record core =
  IdPrefix_Table :: string
  IdPrefix_Record :: string
  IdPrefix_Field :: string
  IdPrefix_View :: string
  IdPrefix_Aggregate :: string
  AggregateKey_RowCount :: string
  AggregateKey_Average :: string
  OpBuilder_ops2Contexts :: "json \<Rightarrow> error + op_context list"

text \<open>
  The record, field, view and table services and the field factory are parameters as
  well. A service reads and writes the document tables and may throw; the operation log
  is written by \<open>commit\<close> alone. A mutating service returns its outcome together with the
  tables as it left them.
\<close>

record ('f, 'v, 'x, 'r) services =
  recordService_getDbTableName :: "('f, 'v, 'x) docs \<Rightarrow> string \<Rightarrow> error + string"
  recordService_setRecordOrder ::
    "('f, 'v, 'x) docs \<Rightarrow> int \<Rightarrow> string \<Rightarrow> string \<Rightarrow> string \<Rightarrow> int \<Rightarrow> (error + unit) \<times> ('f, 'v, 'x) docs"
  recordService_setRecord ::
    "('f, 'v, 'x) docs \<Rightarrow> int \<Rightarrow> string \<Rightarrow> string \<Rightarrow> op_context list \<Rightarrow> (error + unit) \<times> ('f, 'v, 'x) docs"
  recordService_addRecord ::
    "('f, 'v, 'x) docs \<Rightarrow> string \<Rightarrow> string \<Rightarrow> (error + unit) \<times> ('f, 'v, 'x) docs"
  recordService_getRecordSnapshotBulk ::
    "('f, 'v, 'x) docs \<Rightarrow> string \<Rightarrow> string list \<Rightarrow> IProjection option \<Rightarrow> error + ('r, 'v) ISnapshotBase list"
  recordService_getRowCount :: "('f, 'v, 'x) docs \<Rightarrow> string \<Rightarrow> string option \<Rightarrow> error + int"
  fieldService_addField ::
    "('f, 'v, 'x) docs \<Rightarrow> string \<Rightarrow> json option \<Rightarrow> (error + unit) \<times> ('f, 'v, 'x) docs"
  viewService_addView ::
    "('f, 'v, 'x) docs \<Rightarrow> string \<Rightarrow> json option \<Rightarrow> (error + unit) \<times> ('f, 'v, 'x) docs"
  tableService_addTable ::
    "('f, 'v, 'x) docs \<Rightarrow> json option \<Rightarrow> (error + unit) \<times> ('f, 'v, 'x) docs"
  createFieldInstanceByRaw :: "'f field_row_scheme \<Rightarrow> error + json"

section \<open>The adapter\<close>

text \<open>
  An operation \<open>rawOp\<close> is the JSON object ShareDB hands over: a create carries
  \<open>create\<close>, a delete carries \<open>del\<close>, an edit carries \<open>op\<close>. The client that
  \<open>transactionService.get(collection)\<close> yields is the state the functions take and
  return; the callback's arguments are the result.
\<close>

definition skipPoll :: "string \<Rightarrow> string \<Rightarrow> json \<Rightarrow> 'q \<Rightarrow> bool" where
  "skipPoll collection docId rawOp query =
     (if truthy (js_get rawOp ''create'') \<or> truthy (js_get rawOp ''del'') then False
      else \<not> truthy (js_get rawOp ''op''))"

fun setRecordOrder ::
  "('f, 'v, 'x, 'r) services \<Rightarrow> ('f, 'v, 'x) docs \<Rightarrow> int \<Rightarrow> string \<Rightarrow> string \<Rightarrow> op_context list
     \<Rightarrow> (error + unit) \<times> ('f, 'v, 'x) docs" where
  "setRecordOrder svc d version recordId dbTableName [] = (Inr (), d)"
| "setRecordOrder svc d version recordId dbTableName (ctx # contexts) =
     (case ctx of
        SetRecordOrderCtx viewId newOrder \<Rightarrow>
          (case recordService_setRecordOrder svc d version recordId dbTableName viewId newOrder of
             (Inl e, d') \<Rightarrow> (Inl e, d')
           | (Inr u, d') \<Rightarrow> setRecordOrder svc d' version recordId dbTableName contexts)
      | _ \<Rightarrow> (Inl OutOfModel, d))"

definition setRecords ::
  "('f, 'v, 'x, 'r) services \<Rightarrow> ('f, 'v, 'x) docs \<Rightarrow> int \<Rightarrow> string \<Rightarrow> string \<Rightarrow> op_context list
     \<Rightarrow> (error + unit) \<times> ('f, 'v, 'x) docs" where
  "setRecords svc d version recordId dbTableName contexts =
     recordService_setRecord svc d version recordId dbTableName contexts"

text \<open>
  \<open>prisma.field.findUniqueOrThrow\<close> and \<open>prisma.field.update\<close>, both keyed by the id,
  which is unique in the table: a missing row is the client's not-found error.
\<close>

definition field_findUniqueOrThrow ::
  "('f, 'v, 'x) docs \<Rightarrow> string \<Rightarrow> error + 'f field_row_scheme" where
  "field_findUniqueOrThrow d fieldId =
     (case find (\<lambda>r. field_id r = fieldId) (field_table d) of
        None \<Rightarrow> Inl NotFoundError
      | Some r \<Rightarrow> Inr r)"

definition field_update ::
  "('f, 'v, 'x) docs \<Rightarrow> string \<Rightarrow> ('f field_row_scheme \<Rightarrow> 'f field_row_scheme)
     \<Rightarrow> (error + unit) \<times> ('f, 'v, 'x) docs" where
  "field_update d fieldId upd =
     (case find (\<lambda>r. field_id r = fieldId) (field_table d) of
        None \<Rightarrow> (Inl NotFoundError, d)
      | Some r \<Rightarrow>
          (Inr (), d\<lparr>field_table :=
             map (\<lambda>r. if field_id r = fieldId then upd r else r) (field_table d)\<rparr>))"

fun assign_entries :: "json \<Rightarrow> string \<Rightarrow> (string \<times> json) list \<Rightarrow> error + json" where
  "assign_entries columnMeta viewId [] = Inr columnMeta"
| "assign_entries columnMeta viewId ((k, v) # kvs) =
     (case assign_nested columnMeta viewId k (Some v) of
        Inl e \<Rightarrow> Inl e
      | Inr columnMeta' \<Rightarrow> assign_entries columnMeta' viewId kvs)"

fun addColumnMeta ::
  "('f, 'v, 'x) docs \<Rightarrow> int \<Rightarrow> string \<Rightarrow> op_context list \<Rightarrow> (error + unit) \<times> ('f, 'v, 'x) docs" where
  "addColumnMeta d version fieldId [] = (Inr (), d)"
| "addColumnMeta d version fieldId (ctx # contexts) =
     (case ctx of
        AddColumnMetaCtx viewId newMetaValue \<Rightarrow>
          (case field_findUniqueOrThrow d fieldId of
             Inl e \<Rightarrow> (Inl e, d)
           | Inr fieldData \<Rightarrow>
               (case JSON_parse (field_columnMeta fieldData) of
                  Inl e \<Rightarrow> (Inl e, d)
                | Inr columnMeta \<Rightarrow>
                    (case bind_res (Object_entries newMetaValue) (assign_entries columnMeta viewId) of
                       Inl e \<Rightarrow> (Inl e, d)
                     | Inr columnMeta' \<Rightarrow>
                         (case field_update d fieldId
                                 (\<lambda>r. r\<lparr>field_columnMeta := JSON_stringify columnMeta',
                                        field_version := version\<rparr>) of
                            (Inl e, d') \<Rightarrow> (Inl e, d')
                          | (Inr u, d') \<Rightarrow> addColumnMeta d' version fieldId contexts))))
      | _ \<Rightarrow> (Inl OutOfModel, d))"

fun setColumnMeta ::
  "('f, 'v, 'x) docs \<Rightarrow> int \<Rightarrow> string \<Rightarrow> op_context list \<Rightarrow> (error + unit) \<times> ('f, 'v, 'x) docs" where
  "setColumnMeta d version fieldId [] = (Inr (), d)"
| "setColumnMeta d version fieldId (ctx # contexts) =
     (case ctx of
        SetColumnMetaCtx metaKey viewId newMetaValue \<Rightarrow>
          (case field_findUniqueOrThrow d fieldId of
             Inl e \<Rightarrow> (Inl e, d)
           | Inr fieldData \<Rightarrow>
               (case JSON_parse (field_columnMeta fieldData) of
                  Inl e \<Rightarrow> (Inl e, d)
                | Inr columnMeta \<Rightarrow>
                    (case assign_nested columnMeta viewId metaKey newMetaValue of
                       Inl e \<Rightarrow> (Inl e, d)
                     | Inr columnMeta' \<Rightarrow>
                         (case field_update d fieldId
                                 (\<lambda>r. r\<lparr>field_columnMeta := JSON_stringify columnMeta',
                                        field_version := version\<rparr>) of
                            (Inl e, d') \<Rightarrow> (Inl e, d')
                          | (Inr u, d') \<Rightarrow> setColumnMeta d' version fieldId contexts))))
      | _ \<Rightarrow> (Inl OutOfModel, d))"

fun setFieldName ::
  "('f, 'v, 'x) docs \<Rightarrow> int \<Rightarrow> string \<Rightarrow> op_context list \<Rightarrow> (error + unit) \<times> ('f, 'v, 'x) docs" where
  "setFieldName d version fieldId [] = (Inr (), d)"
| "setFieldName d version fieldId (ctx # contexts) =
     (case ctx of
        SetFieldNameCtx newName \<Rightarrow>
          (case field_update d fieldId (\<lambda>r. r\<lparr>field_name := newName, field_version := version\<rparr>) of
             (Inl e, d') \<Rightarrow> (Inl e, d')
           | (Inr u, d') \<Rightarrow> setFieldName d' version fieldId contexts)
      | _ \<Rightarrow> (Inl OutOfModel, d))"

text \<open>
  \<open>groupBy(contexts, 'name')\<close> and the \<open>for ... in\<close> over its result: the names in the
  order of their first context, each with its contexts in their original order.
  \<open>OtherOp n\<close> stands for a name \<open>n\<close> that is none of the five the adapter handles.
\<close>

definition groupBy_name :: "op_context list \<Rightarrow> (OpName \<times> op_context list) list" where
  "groupBy_name contexts =
     map (\<lambda>n. (n, filter (\<lambda>c. ctx_name c = n) contexts))
       (rev (remdups (rev (map ctx_name contexts))))"

fun updateSnapshot_groups ::
  "('f, 'v, 'x, 'r) services \<Rightarrow> ('f, 'v, 'x) docs \<Rightarrow> int \<Rightarrow> string \<Rightarrow> string
     \<Rightarrow> (OpName \<times> op_context list) list \<Rightarrow> (error + unit) \<times> ('f, 'v, 'x) docs" where
  "updateSnapshot_groups svc d version docId dbTableName [] = (Inr (), d)"
| "updateSnapshot_groups svc d version docId dbTableName ((opName, opContexts) # groups) =
     (case (case opName of
              SetRecordOrder \<Rightarrow> setRecordOrder svc d version docId dbTableName opContexts
            | SetRecord \<Rightarrow> setRecords svc d version docId dbTableName opContexts
            | SetColumnMeta \<Rightarrow> setColumnMeta d version docId opContexts
            | AddColumnMeta \<Rightarrow> addColumnMeta d version docId opContexts
            | SetFieldName \<Rightarrow> setFieldName d version docId opContexts
            | OtherOp name \<Rightarrow>
                (Inl (Error (''op name '' @ name @ '' save method did not implement'')), d)) of
        (Inl e, d') \<Rightarrow> (Inl e, d')
      | (Inr u, d') \<Rightarrow> updateSnapshot_groups svc d' version docId dbTableName groups)"

definition updateSnapshot ::
  "('f, 'v, 'x, 'r) services \<Rightarrow> core \<Rightarrow> ('f, 'v, 'x) docs \<Rightarrow> int \<Rightarrow> string \<Rightarrow> string \<Rightarrow> json
     \<Rightarrow> (error + unit) \<times> ('f, 'v, 'x) docs" where
  "updateSnapshot svc co d version collection docId ops =
     (case recordService_getDbTableName svc d collection of
        Inl e \<Rightarrow> (Inl e, d)
      | Inr dbTableName \<Rightarrow>
          (case OpBuilder_ops2Contexts co ops of
             Inl e \<Rightarrow> (Inl e, d)
           | Inr ops2Contexts \<Rightarrow>
               updateSnapshot_groups svc d version docId dbTableName (groupBy_name ops2Contexts)))"

definition createSnapshot ::
  "('f, 'v, 'x, 'r) services \<Rightarrow> core \<Rightarrow> ('f, 'v, 'x) docs \<Rightarrow> string \<Rightarrow> string \<Rightarrow> json option
     \<Rightarrow> (error + unit) \<times> ('f, 'v, 'x) docs" where
  "createSnapshot svc co d collection docId snapshot =
     (let docType = take 3 docId in
      if docType = IdPrefix_Table co then tableService_addTable svc d snapshot
      else if docType = IdPrefix_Record co then recordService_addRecord svc d collection docId
      else if docType = IdPrefix_Field co then fieldService_addField svc d collection snapshot
      else if docType = IdPrefix_View co then viewService_addView svc d collection snapshot
      else (Inr (), d))"

text \<open>\<open>prisma.ops.aggregate\<close> with \<open>_max: {version}\<close> over the rows of one document.\<close>

definition ops_max_version :: "ops_row list \<Rightarrow> string \<Rightarrow> string \<Rightarrow> int option" where
  "ops_max_version rows collection docId =
     (case map ops_version
             (filter (\<lambda>r. ops_collection r = collection \<and> ops_docId r = docId) rows) of
        [] \<Rightarrow> None
      | v # vs \<Rightarrow> Some (fold max vs v))"

text \<open>
  Modelled from the spec: the schema of the operation log lies outside the adapter's
  file. The spec gives the log a unique constraint on collection, document and version,
  so \<open>prisma.ops.create\<close> appends a row unless one with the same key is stored.
\<close>

definition ops_create :: "ops_row list \<Rightarrow> ops_row \<Rightarrow> error + ops_row list" where
  "ops_create rows row =
     (case find (\<lambda>r. ops_collection r = ops_collection row \<and> ops_docId r = ops_docId row
                     \<and> ops_version r = ops_version row) rows of
        Some r \<Rightarrow> Inl UniqueConstraintError
      | None \<Rightarrow> Inr (rows @ [row]))"

definition commit ::
  "('f, 'v, 'x, 'r) services \<Rightarrow> core \<Rightarrow> ('f, 'v, 'x) prisma \<Rightarrow> string \<Rightarrow> string \<Rightarrow> json
     \<Rightarrow> ICollectionSnapshot \<Rightarrow> (error + bool) \<times> ('f, 'v, 'x) prisma" where
  "commit svc co db collection docId rawOp snapshot =
     (let maxVersion =
            (case ops_max_version (ops_table db) collection docId of
               None \<Rightarrow> 0
             | Some m \<Rightarrow> if m = 0 then 0 else m)
      in
      if cs_v snapshot \<noteq> maxVersion + 1 then
        (Inl (Error (''version mismatch: maxVersion: '' @ show_int maxVersion
                       @ '' snapshotV: '' @ show_int (cs_v snapshot))), db)
      else
        (case ops_create (ops_table db)
                \<lparr>ops_collection = collection, ops_docId = docId, ops_version = cs_v snapshot,
                 ops_operation = JSON_stringify rawOp\<rparr> of
           Inl e \<Rightarrow> (Inl e, db)
         | Inr rows \<Rightarrow>
             (case (case js_get rawOp ''create'' of
                      None \<Rightarrow> (Inr (), documents db)
                    | Some c \<Rightarrow>
                        if truthy (Some c) then
                          createSnapshot svc co (documents db) collection docId (js_get c ''data'')
                        else (Inr (), documents db)) of
                (Inl e, d) \<Rightarrow> (Inl e, \<lparr>ops_table = rows, documents = d\<rparr>)
              | (Inr u, d) \<Rightarrow>
                  (case (case js_get rawOp ''op'' of
                           None \<Rightarrow> (Inr (), d)
                         | Some ops \<Rightarrow>
                             if truthy (Some ops) then
                               updateSnapshot svc co d (cs_v snapshot) collection docId ops
                             else (Inr (), d)) of
                     (Inl e, d') \<Rightarrow> (Inl e, \<lparr>ops_table = rows, documents = d'\<rparr>)
                   | (Inr u', d') \<Rightarrow> (Inr True, \<lparr>ops_table = rows, documents = d'\<rparr>)))))"

definition getRecordSnapshotBulk ::
  "('f, 'v, 'x, 'r) services \<Rightarrow> ('f, 'v, 'x) docs \<Rightarrow> string \<Rightarrow> string list \<Rightarrow> IProjection option
     \<Rightarrow> error + ('r, 'v) ISnapshotBase list" where
  "getRecordSnapshotBulk svc d tableId recordIds projection =
     recordService_getRecordSnapshotBulk svc d tableId recordIds projection"

text \<open>
  \<open>findMany\<close> returns the matching rows in storage order. \<open>Array.prototype.sort\<close> with
  the comparator \<open>indexOf(a.id) - indexOf(b.id)\<close> is a stable sort on the key
  \<open>indexOf(id)\<close>.
\<close>

definition getFieldSnapshotBulk ::
  "('f, 'v, 'x, 'r) services \<Rightarrow> ('f, 'v, 'x) docs \<Rightarrow> string \<Rightarrow> string list
     \<Rightarrow> error + ('r, 'v) ISnapshotBase list" where
  "getFieldSnapshotBulk svc d tableId fieldIds =
     (let fields = filter (\<lambda>f. field_tableId f = tableId \<and> field_id f \<in> set fieldIds)
                     (field_table d)
      in
      bind_res (map_res (createFieldInstanceByRaw svc) fields) (\<lambda>fieldInstances.
      bind_res (map_res (\<lambda>(field, plain).
                  bind_res (JSON_parse (field_columnMeta field)) (\<lambda>columnMeta.
                    Inr \<lparr>sb_id = field_id field, sb_v = field_version field,
                         sb_type = ''json0'', sb_data = FieldData plain columnMeta\<rparr>))
                (zip fields fieldInstances)) (\<lambda>snapshots.
      Inr (sort_key (\<lambda>s. indexOf fieldIds (sb_id s)) snapshots))))"

definition view_snapshot :: "'v view_row_scheme \<Rightarrow> error + ('r, 'v) ISnapshotBase" where
  "view_snapshot view =
     bind_res (JSON_parse (ToString (view_filter view))) (\<lambda>filter'.
     bind_res (JSON_parse (ToString (view_sort view))) (\<lambda>sort'.
     bind_res (JSON_parse (ToString (view_group view))) (\<lambda>group'.
     bind_res (JSON_parse (ToString (view_options view))) (\<lambda>options'.
       Inr \<lparr>sb_id = view_id view, sb_v = view_version view, sb_type = ''json0'',
            sb_data = ViewData
              \<lparr>vo_row = view, vo_type = view_type view,
               vo_description =
                 (case view_description view of
                    None \<Rightarrow> None
                  | Some s \<Rightarrow> if s = [] then None else Some s),
               vo_filter = filter', vo_sort = sort', vo_group = group',
               vo_options = options'\<rparr>
              (view_order view)\<rparr>))))"

definition getViewSnapshotBulk ::
  "('f, 'v, 'x) docs \<Rightarrow> string \<Rightarrow> string list \<Rightarrow> error + ('r, 'v) ISnapshotBase list" where
  "getViewSnapshotBulk d tableId viewIds =
     (let views = filter (\<lambda>v. view_tableId v = tableId \<and> view_id v \<in> set viewIds)
                    (view_table d)
      in
      bind_res (map_res view_snapshot views) (\<lambda>snapshots.
      Inr (sort_key (\<lambda>s. indexOf viewIds (sb_id s)) snapshots)))"

text \<open>The destructuring \<open>const [aggregateKey, viewId] = id.split('_')\<close>.\<close>

definition split_id :: "string \<Rightarrow> string \<times> string option" where
  "split_id rowCountId =
     (let parts = split_on CHR ''_'' rowCountId in
      (hd parts, case tl parts of [] \<Rightarrow> None | w # ws \<Rightarrow> Some w))"

fun aggregateResults ::
  "('f, 'v, 'x, 'r) services \<Rightarrow> core \<Rightarrow> ('f, 'v, 'x) docs \<Rightarrow> string \<Rightarrow> string list
     \<Rightarrow> error + int list" where
  "aggregateResults svc co d tableId [] = Inr []"
| "aggregateResults svc co d tableId (rowCountId # rowCountIds) =
     (case split_id rowCountId of
        (aggregateKey, viewId) \<Rightarrow>
          if aggregateKey = AggregateKey_RowCount co then
            (case recordService_getRowCount svc d tableId viewId of
               Inl e \<Rightarrow> Inl e
             | Inr result \<Rightarrow>
                 (case aggregateResults svc co d tableId rowCountIds of
                    Inl e \<Rightarrow> Inl e
                  | Inr results \<Rightarrow> Inr (result # results)))
          else if aggregateKey = AggregateKey_Average co then
            Inl (Error (''aggregate '' @ aggregateKey @ '' not implemented''))
          else Inl (Error (''aggregate '' @ aggregateKey @ '' not implemented'')))"

definition getAggregateBulk ::
  "('f, 'v, 'x, 'r) services \<Rightarrow> core \<Rightarrow> ('f, 'v, 'x) docs \<Rightarrow> string \<Rightarrow> string list
     \<Rightarrow> error + ('r, 'v) ISnapshotBase list" where
  "getAggregateBulk svc co d tableId rowCountIds =
     bind_res (aggregateResults svc co d tableId rowCountIds) (\<lambda>results.
       Inr (map (\<lambda>(result, rowCountId).
                  \<lparr>sb_id = rowCountId, sb_v = 1, sb_type = ''json0'',
                   sb_data = AggregateData result\<rparr>)
              (zip results rowCountIds)))"

text \<open>
  The projection handed to the record reader: \<open>projection && projection['$submit'] ?
  undefined : projection\<close>.
\<close>

definition record_projection :: "IProjection option \<Rightarrow> IProjection option" where
  "record_projection projection =
     (case projection of
        None \<Rightarrow> None
      | Some p \<Rightarrow> if p ''$submit'' = Some True then None else Some p)"

text \<open>
  The end of \<open>getSnapshotBulk\<close>: the rows found become snapshots; when none was found,
  every requested id gets a placeholder of version 0 with no type and no data.
\<close>

definition snapshots_of :: "string list \<Rightarrow> ('r, 'v) ISnapshotBase list \<Rightarrow> ('r, 'v) Snapshot list" where
  "snapshots_of ids snapshotData =
     (if snapshotData \<noteq> [] then
        map (\<lambda>s. \<lparr>snap_id = sb_id s, snap_v = sb_v s, snap_type = Some (sb_type s),
                   snap_data = Some (sb_data s), snap_m = None\<rparr>) snapshotData
      else
        map (\<lambda>i. \<lparr>snap_id = i, snap_v = 0, snap_type = None, snap_data = None,
                   snap_m = None\<rparr>) ids)"

text \<open>
  \<open>ids.find(...)\<close> yields the first id of another prefix, and the \<open>if\<close> tests that id
  for truthiness: an empty id is not reported.
\<close>

definition getSnapshotBulk ::
  "('f, 'v, 'x, 'r) services \<Rightarrow> core \<Rightarrow> ('f, 'v, 'x) docs \<Rightarrow> string \<Rightarrow> string list
     \<Rightarrow> IProjection option \<Rightarrow> error + ('r, 'v) Snapshot list" where
  "getSnapshotBulk svc co d collection ids projection =
     (case ids of
        [] \<Rightarrow> Inl TypeError
      | id0 # rest \<Rightarrow>
          (let docType = take 3 id0 in
           if (case find (\<lambda>i. take 3 i \<noteq> docType) ids of None \<Rightarrow> False | Some i \<Rightarrow> i \<noteq> [])
           then Inl (Error ''get snapshot bulk ids must be same type'')
           else
             bind_res
               (if docType = IdPrefix_Record co then
                  getRecordSnapshotBulk svc d collection ids (record_projection projection)
                else if docType = IdPrefix_Field co then getFieldSnapshotBulk svc d collection ids
                else if docType = IdPrefix_View co then getViewSnapshotBulk d collection ids
                else if docType = IdPrefix_Aggregate co then
                  getAggregateBulk svc co d collection ids
                else Inr [])
               (\<lambda>snapshotData. Inr (snapshots_of ids snapshotData))))"

definition getSnapshot ::
  "('f, 'v, 'x, 'r) services \<Rightarrow> core \<Rightarrow> ('f, 'v, 'x) docs \<Rightarrow> string \<Rightarrow> string
     \<Rightarrow> IProjection option \<Rightarrow> error + ('r, 'v) Snapshot option" where
  "getSnapshot svc co d collection docId projection =
     (case getSnapshotBulk svc co d collection [docId] projection of
        Inl err \<Rightarrow> Inl err
      | Inr snapshots \<Rightarrow> Inr (case snapshots of [] \<Rightarrow> None | s # ss \<Rightarrow> Some s))"

section \<open>Notions of the specification\<close>

text \<open>
  The maximum logged version of a document, in the words of the specification: the
  largest version among its log rows, or 0 when it has none.
\<close>

definition maxLoggedVersion :: "ops_row list \<Rightarrow> string \<Rightarrow> string \<Rightarrow> int" where
  "maxLoggedVersion rows collection docId =
     (let vs = map ops_version
                 (filter (\<lambda>r. ops_collection r = collection \<and> ops_docId r = docId) rows)
      in if vs = [] then 0 else Max (set vs))"

text \<open>
  The three kinds of operation as ShareDB validates them: a create carries an object
  under \<open>create\<close>, a delete carries \<open>del: true\<close>, and the descriptors of an edit are the
  elements of the array under \<open>op\<close>.
\<close>

definition is_create :: "json \<Rightarrow> bool" where
  "is_create rawOp = (case js_get rawOp ''create'' of Some (JObj m) \<Rightarrow> True | _ \<Rightarrow> False)"

definition is_delete :: "json \<Rightarrow> bool" where
  "is_delete rawOp = (js_get rawOp ''del'' = Some (JBool True))"

definition descriptors :: "json \<Rightarrow> json list" where
  "descriptors rawOp = (case js_get rawOp ''op'' of Some (JArr ds) \<Rightarrow> ds | _ \<Rightarrow> [])"



section \<open>Sample instances\<close>

text \<open>
  Concrete collaborators and tables on which the theorems below are instantiated. The
  prefixes and keys are sample values of the constants of the core package.
\<close>

fun sample_context :: "json \<Rightarrow> op_context" where
  "sample_context j =
     (if js_get j ''name'' = Some (JStr ''setColumnMeta'') then
        (case (js_get j ''metaKey'', js_get j ''viewId'') of
           (Some (JStr k), Some (JStr w)) \<Rightarrow> SetColumnMetaCtx k w (js_get j ''newMetaValue'')
         | _ \<Rightarrow> OtherCtx ''setColumnMeta'' j)
      else if js_get j ''name'' = Some (JStr ''setFieldName'') then
        (case js_get j ''newName'' of
           Some (JStr n) \<Rightarrow> SetFieldNameCtx n
         | _ \<Rightarrow> OtherCtx ''setFieldName'' j)
      else OtherCtx ''unknown'' j)"

definition sample_core :: core where
  "sample_core =
     \<lparr>IdPrefix_Table = ''tbl'', IdPrefix_Record = ''rec'', IdPrefix_Field = ''fld'',
      IdPrefix_View = ''viw'', IdPrefix_Aggregate = ''agg'',
      AggregateKey_RowCount = ''aggRowCount'', AggregateKey_Average = ''aggAverage'',
      OpBuilder_ops2Contexts =
        (\<lambda>ops. case ops of JArr js \<Rightarrow> Inr (map sample_context js) | _ \<Rightarrow> Inl TypeError)\<rparr>"

definition sample_services :: "(unit, unit, string list, json) services" where
  "sample_services =
     \<lparr>recordService_getDbTableName = (\<lambda>d collection. Inr (''db_'' @ collection)),
      recordService_setRecordOrder = (\<lambda>d version recordId dbTableName viewId newOrder. (Inr (), d)),
      recordService_setRecord = (\<lambda>d version recordId dbTableName contexts. (Inr (), d)),
      recordService_addRecord =
        (\<lambda>d tableId recordId. (Inr (), d\<lparr>other_tables := other_tables d @ [recordId]\<rparr>)),
      recordService_getRecordSnapshotBulk =
        (\<lambda>d tableId recordIds projection.
           Inr (map (\<lambda>i. \<lparr>sb_id = i, sb_v = 1, sb_type = ''json0'',
                          sb_data = RecordData
                            (case projection of
                               None \<Rightarrow> JStr ''every field''
                             | Some p \<Rightarrow> JStr ''projected'')\<rparr>)
                  (filter (\<lambda>i. i \<in> set (other_tables d)) recordIds))),
      recordService_getRowCount = (\<lambda>d tableId viewId. Inr (int (length (other_tables d)))),
      fieldService_addField = (\<lambda>d tableId snapshot. (Inr (), d)),
      viewService_addView = (\<lambda>d tableId snapshot. (Inr (), d)),
      tableService_addTable = (\<lambda>d snapshot. (Inr (), d)),
      createFieldInstanceByRaw =
        (\<lambda>f. Inr (JObj [(''id'', JStr (field_id f)), (''name'', JStr (field_name f))]))\<rparr>"

definition sample_field :: "string \<Rightarrow> int \<Rightarrow> string \<Rightarrow> field_row" where
  "sample_field fieldId version columnMeta =
     \<lparr>field_id = fieldId, field_tableId = ''tbl1'', field_name = ''Name'',
      field_version = version, field_columnMeta = columnMeta\<rparr>"

definition sample_view :: "string \<Rightarrow> string option \<Rightarrow> view_row" where
  "sample_view viewId filter' =
     \<lparr>view_id = viewId, view_tableId = ''tbl1'', view_version = 1, view_type = ''grid'',
      view_description = None, view_filter = filter', view_sort = None,
      view_group = Some ''[]'', view_options = Some ''{}'', view_order = 1\<rparr>"

definition sample_columnMeta :: json where
  "sample_columnMeta =
     JObj [(''viw1'', JObj [(''width'', JNum 100), (''hidden'', JBool False)]),
           (''viw2'', JObj [(''width'', JNum 80)])]"

definition sample_docs :: "(unit, unit, string list) docs" where
  "sample_docs =
     \<lparr>field_table =
        [sample_field ''fldB'' 2 ''{}'',
         sample_field ''fldA'' 1 (JSON_stringify sample_columnMeta)],
      view_table = [sample_view ''viw2'' None, sample_view ''viw1'' (Some ''null'')],
      other_tables = [''rec1'', ''rec2'']\<rparr>"

definition sample_prisma :: "(unit, unit, string list) prisma" where
  "sample_prisma =
     \<lparr>ops_table =
        [\<lparr>ops_collection = ''tbl1'', ops_docId = ''fldA'', ops_version = 1,
          ops_operation = ''{}''\<rparr>],
      documents = sample_docs\<rparr>"

section \<open>The polling predicate\<close>

lemma skipPoll_iff:
  "skipPoll collection docId rawOp query =
     (\<not> truthy (js_get rawOp ''create'') \<and> \<not> truthy (js_get rawOp ''del'')
      \<and> \<not> truthy (js_get rawOp ''op''))"
  by (simp add: skipPoll_def)

text \<open>
  C7: \<open>skipPoll\<close> answers "no effect" exactly when none of \<open>create\<close>, \<open>del\<close> and \<open>op\<close>
  is truthy. So it never answers "no effect" for a create or for a delete, and when it
  answers "no effect" the operation carries no mutation descriptor at all.
\<close>

theorem skipPoll_create_delete_edit:
  "(is_create rawOp \<longrightarrow> \<not> skipPoll collection docId rawOp query)
   \<and> (is_delete rawOp \<longrightarrow> \<not> skipPoll collection docId rawOp query)
   \<and> (skipPoll collection docId rawOp query \<longrightarrow> descriptors rawOp = [])"
proof (intro conjI impI)
  assume "is_create rawOp"
  then have "truthy (js_get rawOp ''create'')"
    by (auto simp: is_create_def split: option.splits json.splits)
  then show "\<not> skipPoll collection docId rawOp query"
    by (simp add: skipPoll_iff)
next
  assume "is_delete rawOp"
  then have "truthy (js_get rawOp ''del'')"
    by (simp add: is_delete_def)
  then show "\<not> skipPoll collection docId rawOp query"
    by (simp add: skipPoll_iff)
next
  assume "skipPoll collection docId rawOp query"
  then have "\<not> truthy (js_get rawOp ''op'')"
    by (simp add: skipPoll_iff)
  then show "descriptors rawOp = []"
    by (auto simp: descriptors_def split: option.splits json.splits)
qed

theorem skipPoll_create_delete_edit_witness:
  "is_create (JObj [(''v'', JNum 0), (''create'', JObj [(''type'', JStr ''json0'')])])
   \<and> \<not> skipPoll ''tbl1'' ''fldA''
         (JObj [(''v'', JNum 0), (''create'', JObj [(''type'', JStr ''json0'')])]) ()
   \<and> is_delete (JObj [(''v'', JNum 3), (''del'', JBool True)])
   \<and> \<not> skipPoll ''tbl1'' ''fldA'' (JObj [(''v'', JNum 3), (''del'', JBool True)]) ()
   \<and> skipPoll ''tbl1'' ''fldA'' (JObj [(''v'', JNum 2)]) ()
   \<and> descriptors (JObj [(''v'', JNum 2)]) = []"
  using skipPoll_create_delete_edit
          [of "JObj [(''v'', JNum 0), (''create'', JObj [(''type'', JStr ''json0'')])]"
              "''tbl1''" "''fldA''" "()"]
        skipPoll_create_delete_edit
          [of "JObj [(''v'', JNum 3), (''del'', JBool True)]" "''tbl1''" "''fldA''" "()"]
        skipPoll_create_delete_edit [of "JObj [(''v'', JNum 2)]" "''tbl1''" "''fldA''" "()"]
  by (simp add: is_create_def is_delete_def skipPoll_def js_get_def descriptors_def)

section \<open>Bulk reads: the empty request\<close>

text \<open>
  C10: with an empty list of ids \<open>getSnapshotBulk\<close> does not answer with an empty list of
  snapshots. The prefix is read off \<open>ids[0]\<close> first, which is \<open>undefined\<close>, so the call
  ends in the \<open>TypeError\<close> of \<open>undefined.slice\<close>, handed to the callback as the error.
\<close>

theorem getSnapshotBulk_empty_ids:
  "getSnapshotBulk svc co d collection [] projection = Inl TypeError
   \<and> getSnapshotBulk svc co d collection [] projection \<noteq> Inr []"
  by (simp add: getSnapshotBulk_def)

section \<open>The projection of a record read\<close>

lemma find_same_prefix:
  "\<forall>i\<in>set rest. take 3 i = take 3 id0 \<Longrightarrow>
     find (\<lambda>i. take 3 i \<noteq> take 3 id0) (id0 # rest) = None"
  by (simp add: find_None_iff)

text \<open>
  C8: a bulk read of record ids hands the record reader no projection at all when the
  projection given has a truthy \<open>$submit\<close> key, whatever other keys it names, and hands
  it the projection unchanged otherwise.
\<close>

theorem getSnapshotBulk_record_projection:
  assumes "take 3 id0 = IdPrefix_Record co"
      and "\<forall>i\<in>set rest. take 3 i = take 3 id0"
  shows "getSnapshotBulk svc co d collection (id0 # rest) projection =
           bind_res
             (recordService_getRecordSnapshotBulk svc d collection (id0 # rest)
                (case projection of
                   None \<Rightarrow> None
                 | Some p \<Rightarrow> if p ''$submit'' = Some True then None else Some p))
             (\<lambda>snapshotData. Inr (snapshots_of (id0 # rest) snapshotData))"
  using assms find_same_prefix [of rest id0]
  by (simp add: getSnapshotBulk_def getRecordSnapshotBulk_def record_projection_def Let_def
           del: find.simps)

theorem getSnapshotBulk_record_projection_witness:
  "take 3 ''rec1'' = IdPrefix_Record sample_core
   \<and> take 3 ''rec2'' = take 3 ''rec1''
   \<and> getSnapshotBulk sample_services sample_core sample_docs ''tbl1'' [''rec1'', ''rec2'']
         (Some [''$submit'' \<mapsto> True, ''fld1'' \<mapsto> True])
       = Inr [\<lparr>snap_id = ''rec1'', snap_v = 1, snap_type = Some ''json0'',
               snap_data = Some (RecordData (JStr ''every field'')), snap_m = None\<rparr>,
              \<lparr>snap_id = ''rec2'', snap_v = 1, snap_type = Some ''json0'',
               snap_data = Some (RecordData (JStr ''every field'')), snap_m = None\<rparr>]
   \<and> getSnapshotBulk sample_services sample_core sample_docs ''tbl1'' [''rec1'', ''rec2'']
         (Some [''fld1'' \<mapsto> True])
       = Inr [\<lparr>snap_id = ''rec1'', snap_v = 1, snap_type = Some ''json0'',
               snap_data = Some (RecordData (JStr ''projected'')), snap_m = None\<rparr>,
              \<lparr>snap_id = ''rec2'', snap_v = 1, snap_type = Some ''json0'',
               snap_data = Some (RecordData (JStr ''projected'')), snap_m = None\<rparr>]"
  using getSnapshotBulk_record_projection
          [of "''rec1''" sample_core "[''rec2'']" sample_services sample_docs "''tbl1''"
              "Some [''$submit'' \<mapsto> True, ''fld1'' \<mapsto> True]"]
        getSnapshotBulk_record_projection
          [of "''rec1''" sample_core "[''rec2'']" sample_services sample_docs "''tbl1''"
              "Some [''fld1'' \<mapsto> True]"]
  by (simp add: sample_core_def sample_services_def sample_docs_def bind_res_def
        snapshots_of_def)

section \<open>Aggregates\<close>

lemma aggregateResults_Cons:
  "aggregateResults svc co d tableId (i # rowCountIds) =
     (if fst (split_id i) = AggregateKey_RowCount co then
        (case recordService_getRowCount svc d tableId (snd (split_id i)) of
           Inl e \<Rightarrow> Inl e
         | Inr result \<Rightarrow>
             (case aggregateResults svc co d tableId rowCountIds of
                Inl e \<Rightarrow> Inl e
              | Inr results \<Rightarrow> Inr (result # results)))
      else Inl (Error (''aggregate '' @ fst (split_id i) @ '' not implemented'')))"
  by (cases "split_id i") simp

lemma aggregateResults_other_key:
  "\<exists>i\<in>set rowCountIds. fst (split_id i) \<noteq> AggregateKey_RowCount co \<Longrightarrow>
     \<exists>e. aggregateResults svc co d tableId rowCountIds = Inl e"
proof (induction rowCountIds)
  case Nil
  then show ?case by simp
next
  case (Cons i rowCountIds)
  show ?case
  proof (cases "fst (split_id i) = AggregateKey_RowCount co")
    case False
    then show ?thesis by (simp add: aggregateResults_Cons del: aggregateResults.simps)
  next
    case True
    with Cons.prems have "\<exists>j\<in>set rowCountIds. fst (split_id j) \<noteq> AggregateKey_RowCount co"
      by auto
    then obtain e where "aggregateResults svc co d tableId rowCountIds = Inl e"
      using Cons.IH by blast
    with True show ?thesis
      by (simp add: aggregateResults_Cons del: aggregateResults.simps split: sum.splits)
  qed
qed

lemma aggregateResults_Inr:
  "aggregateResults svc co d tableId rowCountIds = Inr results \<Longrightarrow>
     list_all2 (\<lambda>i n. fst (split_id i) = AggregateKey_RowCount co
                  \<and> recordService_getRowCount svc d tableId (snd (split_id i)) = Inr n)
       rowCountIds results"
proof (induction rowCountIds arbitrary: results)
  case Nil
  then show ?case by simp
next
  case (Cons i rowCountIds)
  then show ?case
    by (auto simp: aggregateResults_Cons simp del: aggregateResults.simps
          split: sum.splits if_splits)
qed

lemma aggregateResults_all_RowCount:
  "\<forall>i\<in>set rowCountIds. fst (split_id i) = AggregateKey_RowCount co
       \<and> (\<exists>n. recordService_getRowCount svc d tableId (snd (split_id i)) = Inr n) \<Longrightarrow>
     \<exists>results. aggregateResults svc co d tableId rowCountIds = Inr results"
proof (induction rowCountIds)
  case Nil
  then show ?case by simp
next
  case (Cons i rowCountIds)
  then obtain results where "aggregateResults svc co d tableId rowCountIds = Inr results"
    by auto
  moreover from Cons.prems obtain n where
    "fst (split_id i) = AggregateKey_RowCount co"
    "recordService_getRowCount svc d tableId (snd (split_id i)) = Inr n"
    by auto
  ultimately show ?case
    by (simp add: aggregateResults_Cons del: aggregateResults.simps)
qed

text \<open>
  C6: an aggregate id is split at the underscores into its key and its view id. A key
  other than \<open>RowCount\<close> (\<open>Average\<close> included) ends the read with the error
  "aggregate <key> not implemented"; a batch that holds such an id never yields
  snapshots. When every key is \<open>RowCount\<close> and the row counts can be read, the read
  yields, for each id, the row count of the parsed view id at version 1.
\<close>

theorem getAggregateBulk_keys:
  "(fst (split_id rowCountId) \<noteq> AggregateKey_RowCount co \<longrightarrow>
      getAggregateBulk svc co d tableId [rowCountId] =
        Inl (Error (''aggregate '' @ fst (split_id rowCountId) @ '' not implemented'')))
   \<and> ((\<exists>i\<in>set rowCountIds. fst (split_id i) \<noteq> AggregateKey_RowCount co) \<longrightarrow>
        (\<exists>e. getAggregateBulk svc co d tableId rowCountIds = Inl e))
   \<and> ((\<forall>i\<in>set rowCountIds. fst (split_id i) = AggregateKey_RowCount co
          \<and> (\<exists>n. recordService_getRowCount svc d tableId (snd (split_id i)) = Inr n)) \<longrightarrow>
        (\<exists>snapshots. getAggregateBulk svc co d tableId rowCountIds = Inr snapshots))
   \<and> (getAggregateBulk svc co d tableId rowCountIds = Inr snapshots \<longrightarrow>
        list_all2 (\<lambda>i s. fst (split_id i) = AggregateKey_RowCount co
                     \<and> (\<exists>n. recordService_getRowCount svc d tableId (snd (split_id i)) = Inr n
                          \<and> s = \<lparr>sb_id = i, sb_v = 1, sb_type = ''json0'',
                                 sb_data = AggregateData n\<rparr>))
          rowCountIds snapshots)"
proof (intro conjI impI)
  assume "fst (split_id rowCountId) \<noteq> AggregateKey_RowCount co"
  then show "getAggregateBulk svc co d tableId [rowCountId] =
      Inl (Error (''aggregate '' @ fst (split_id rowCountId) @ '' not implemented''))"
    by (simp add: getAggregateBulk_def bind_res_def aggregateResults_Cons
          del: aggregateResults.simps)
next
  assume "\<exists>i\<in>set rowCountIds. fst (split_id i) \<noteq> AggregateKey_RowCount co"
  then obtain e where "aggregateResults svc co d tableId rowCountIds = Inl e"
    using aggregateResults_other_key by blast
  then show "\<exists>e. getAggregateBulk svc co d tableId rowCountIds = Inl e"
    by (simp add: getAggregateBulk_def bind_res_def)
next
  assume "\<forall>i\<in>set rowCountIds. fst (split_id i) = AggregateKey_RowCount co
      \<and> (\<exists>n. recordService_getRowCount svc d tableId (snd (split_id i)) = Inr n)"
  then obtain results where "aggregateResults svc co d tableId rowCountIds = Inr results"
    using aggregateResults_all_RowCount by blast
  then show "\<exists>snapshots. getAggregateBulk svc co d tableId rowCountIds = Inr snapshots"
    by (simp add: getAggregateBulk_def bind_res_def)
next
  assume ok: "getAggregateBulk svc co d tableId rowCountIds = Inr snapshots"
  then obtain results where res: "aggregateResults svc co d tableId rowCountIds = Inr results"
    and snaps: "snapshots = map (\<lambda>(result, rowCountId).
                  \<lparr>sb_id = rowCountId, sb_v = 1, sb_type = ''json0'',
                   sb_data = AggregateData result\<rparr>) (zip results rowCountIds)"
    by (auto simp: getAggregateBulk_def bind_res_def split: sum.splits)
  from aggregateResults_Inr [OF res]
  have "list_all2 (\<lambda>i n. fst (split_id i) = AggregateKey_RowCount co
                  \<and> recordService_getRowCount svc d tableId (snd (split_id i)) = Inr n)
       rowCountIds results" .
  then show "list_all2 (\<lambda>i s. fst (split_id i) = AggregateKey_RowCount co
                     \<and> (\<exists>n. recordService_getRowCount svc d tableId (snd (split_id i)) = Inr n
                          \<and> s = \<lparr>sb_id = i, sb_v = 1, sb_type = ''json0'',
                                 sb_data = AggregateData n\<rparr>))
          rowCountIds snapshots"
    unfolding snaps
    by (induction rowCountIds results rule: list_all2_induct) auto
qed

theorem getAggregateBulk_keys_witness:
  "fst (split_id ''aggAverage_viw1'') \<noteq> AggregateKey_RowCount sample_core
   \<and> getAggregateBulk sample_services sample_core sample_docs ''tbl1'' [''aggAverage_viw1'']
       = (Inl (Error ''aggregate aggAverage not implemented'')
            :: error + (json, unit) ISnapshotBase list)
   \<and> (\<exists>e. getAggregateBulk sample_services sample_core sample_docs ''tbl1''
              [''aggRowCount_viw1'', ''aggAverage_viw1'']
            = (Inl e :: error + (json, unit) ISnapshotBase list))
   \<and> getAggregateBulk sample_services sample_core sample_docs ''tbl1'' [''aggRowCount_viw1'']
       = (Inr [\<lparr>sb_id = ''aggRowCount_viw1'', sb_v = 1, sb_type = ''json0'',
                sb_data = AggregateData 2\<rparr>] :: error + (json, unit) ISnapshotBase list)"
  using getAggregateBulk_keys
          [of "''aggAverage_viw1''" sample_core sample_services sample_docs "''tbl1''"
              "[''aggRowCount_viw1'', ''aggAverage_viw1'']"]
        getAggregateBulk_keys
          [of "''aggAverage_viw1''" sample_core sample_services sample_docs "''tbl1''"
              "[''aggRowCount_viw1'']"
              "[\<lparr>sb_id = ''aggRowCount_viw1'', sb_v = 1, sb_type = ''json0'',
                 sb_data = AggregateData 2\<rparr>]"]
  by (simp add: split_id_def sample_core_def sample_services_def sample_docs_def
        getAggregateBulk_def bind_res_def)

section \<open>The version check of commit\<close>

lemma maxVersion_eq:
  "(case ops_max_version rows collection docId of None \<Rightarrow> 0 | Some m \<Rightarrow> if m = 0 then 0 else m)
     = maxLoggedVersion rows collection docId"
proof -
  define vs where
    "vs = map ops_version
            (filter (\<lambda>r. ops_collection r = collection \<and> ops_docId r = docId) rows)"
  have code: "ops_max_version rows collection docId =
                (case vs of [] \<Rightarrow> None | v # ws \<Rightarrow> Some (fold max ws v))"
    by (simp add: ops_max_version_def vs_def)
  have spec: "maxLoggedVersion rows collection docId = (if vs = [] then 0 else Max (set vs))"
    by (simp add: maxLoggedVersion_def vs_def)
  show ?thesis
  proof (cases vs)
    case Nil
    then show ?thesis by (simp add: code spec)
  next
    case (Cons v ws)
    have "Max (set (v # ws)) = fold max ws v" by (rule Max.set_eq_fold)
    with Cons show ?thesis by (simp add: code spec)
  qed
qed

lemma version_le_maxLoggedVersion:
  assumes "r \<in> set rows" "ops_collection r = collection" "ops_docId r = docId"
  shows "ops_version r \<le> maxLoggedVersion rows collection docId"
proof -
  define vs where
    "vs = map ops_version
            (filter (\<lambda>r. ops_collection r = collection \<and> ops_docId r = docId) rows)"
  from assms have mem: "ops_version r \<in> set vs" by (auto simp: vs_def)
  then have "vs \<noteq> []" by auto
  moreover from mem have "ops_version r \<le> Max (set vs)" by simp
  moreover have "maxLoggedVersion rows collection docId = (if vs = [] then 0 else Max (set vs))"
    by (simp add: maxLoggedVersion_def vs_def)
  ultimately show ?thesis by simp
qed

lemma ops_create_next:
  assumes "v = maxLoggedVersion rows collection docId + 1"
  shows "ops_create rows \<lparr>ops_collection = collection, ops_docId = docId, ops_version = v,
           ops_operation = operation\<rparr>
         = Inr (rows @ [\<lparr>ops_collection = collection, ops_docId = docId, ops_version = v,
                         ops_operation = operation\<rparr>])"
proof -
  have "find (\<lambda>r. ops_collection r = collection \<and> ops_docId r = docId \<and> ops_version r = v) rows
          = None"
    using version_le_maxLoggedVersion [of _ rows collection docId] assms
    by (fastforce simp: find_None_iff)
  then show ?thesis by (simp add: ops_create_def)
qed

text \<open>
  C1: a commit whose snapshot version is not the maximum logged version of the document
  plus one answers with the version-mismatch error and leaves the log and every table as
  they were. A commit at the maximum logged version plus one appends the serialised
  operation to the log at that version, whatever the appliers do afterwards.
\<close>

theorem commit_version_check:
  "(cs_v snapshot \<noteq> maxLoggedVersion (ops_table db) collection docId + 1 \<longrightarrow>
      commit svc co db collection docId rawOp snapshot =
        (Inl (Error (''version mismatch: maxVersion: ''
                       @ show_int (maxLoggedVersion (ops_table db) collection docId)
                       @ '' snapshotV: '' @ show_int (cs_v snapshot))), db))
   \<and> (cs_v snapshot = maxLoggedVersion (ops_table db) collection docId + 1 \<longrightarrow>
        ops_table (snd (commit svc co db collection docId rawOp snapshot)) =
          ops_table db @ [\<lparr>ops_collection = collection, ops_docId = docId,
                            ops_version = cs_v snapshot,
                            ops_operation = JSON_stringify rawOp\<rparr>])"
proof (intro conjI impI)
  assume "cs_v snapshot \<noteq> maxLoggedVersion (ops_table db) collection docId + 1"
  then show "commit svc co db collection docId rawOp snapshot =
        (Inl (Error (''version mismatch: maxVersion: ''
                       @ show_int (maxLoggedVersion (ops_table db) collection docId)
                       @ '' snapshotV: '' @ show_int (cs_v snapshot))), db)"
    unfolding commit_def maxVersion_eq by (simp add: Let_def)
next
  assume next_version: "cs_v snapshot = maxLoggedVersion (ops_table db) collection docId + 1"
  show "ops_table (snd (commit svc co db collection docId rawOp snapshot)) =
          ops_table db @ [\<lparr>ops_collection = collection, ops_docId = docId,
                            ops_version = cs_v snapshot,
                            ops_operation = JSON_stringify rawOp\<rparr>]"
    unfolding commit_def maxVersion_eq
    by (simp add: Let_def next_version [symmetric] ops_create_next [OF next_version]
          split: prod.splits sum.splits option.splits)
qed


theorem commit_version_check_witness:
  "cs_v \<lparr>cs_type = ''json0'', cs_v = 3, cs_data = JNull\<rparr>
     \<noteq> maxLoggedVersion (ops_table sample_prisma) ''tbl1'' ''fldA'' + 1
   \<and> commit sample_services sample_core sample_prisma ''tbl1'' ''fldA''
         (JObj [(''v'', JNum 1), (''op'', JArr [JObj [(''name'', JStr ''setFieldName''),
            (''newName'', JStr ''Title'')]])])
         \<lparr>cs_type = ''json0'', cs_v = 3, cs_data = JNull\<rparr>
       = (Inl (Error ''version mismatch: maxVersion: 1 snapshotV: 3''), sample_prisma)
   \<and> cs_v \<lparr>cs_type = ''json0'', cs_v = 2, cs_data = JNull\<rparr>
       = maxLoggedVersion (ops_table sample_prisma) ''tbl1'' ''fldA'' + 1
   \<and> ops_table (snd (commit sample_services sample_core sample_prisma ''tbl1'' ''fldA''
         (JObj [(''v'', JNum 1), (''op'', JArr [JObj [(''name'', JStr ''setFieldName''),
            (''newName'', JStr ''Title'')]])])
         \<lparr>cs_type = ''json0'', cs_v = 2, cs_data = JNull\<rparr>))
       = [\<lparr>ops_collection = ''tbl1'', ops_docId = ''fldA'', ops_version = 1,
           ops_operation = ''{}''\<rparr>,
          \<lparr>ops_collection = ''tbl1'', ops_docId = ''fldA'', ops_version = 2,
           ops_operation =
             ''{\"v\":1,\"op\":[{\"name\":\"setFieldName\",\"newName\":\"Title\"}]}''\<rparr>]"
proof -
  have max1: "maxLoggedVersion (ops_table sample_prisma) ''tbl1'' ''fldA'' = 1"
    by (simp add: maxLoggedVersion_def sample_prisma_def)
  have shown: "show_int 1 = ''1''" "show_int 3 = ''3''"
    by code_simp+
  have serialised: "JSON_stringify (JObj [(''v'', JNum 1), (''op'', JArr [JObj [(''name'',
                 JStr ''setFieldName''), (''newName'', JStr ''Title'')]])])
              = ''{\"v\":1,\"op\":[{\"name\":\"setFieldName\",\"newName\":\"Title\"}]}''"
    by code_simp
  have log: "ops_table sample_prisma =
      [\<lparr>ops_collection = ''tbl1'', ops_docId = ''fldA'', ops_version = 1,
        ops_operation = ''{}''\<rparr>]"
    by (simp add: sample_prisma_def)
  have conflict:
    "commit sample_services sample_core sample_prisma ''tbl1'' ''fldA''
         (JObj [(''v'', JNum 1), (''op'', JArr [JObj [(''name'', JStr ''setFieldName''),
            (''newName'', JStr ''Title'')]])])
         \<lparr>cs_type = ''json0'', cs_v = 3, cs_data = JNull\<rparr>
       = (Inl (Error ''version mismatch: maxVersion: 1 snapshotV: 3''), sample_prisma)"
    using commit_version_check
            [of "\<lparr>cs_type = ''json0'', cs_v = 3, cs_data = JNull\<rparr>" sample_prisma
                "''tbl1''" "''fldA''" sample_services sample_core
                "JObj [(''v'', JNum 1), (''op'', JArr [JObj [(''name'', JStr ''setFieldName''),
                   (''newName'', JStr ''Title'')]])]"]
    unfolding max1 by (simp add: shown)
  have appended:
    "ops_table (snd (commit sample_services sample_core sample_prisma ''tbl1'' ''fldA''
         (JObj [(''v'', JNum 1), (''op'', JArr [JObj [(''name'', JStr ''setFieldName''),
            (''newName'', JStr ''Title'')]])])
         \<lparr>cs_type = ''json0'', cs_v = 2, cs_data = JNull\<rparr>))
       = [\<lparr>ops_collection = ''tbl1'', ops_docId = ''fldA'', ops_version = 1,
           ops_operation = ''{}''\<rparr>,
          \<lparr>ops_collection = ''tbl1'', ops_docId = ''fldA'', ops_version = 2,
           ops_operation =
             ''{\"v\":1,\"op\":[{\"name\":\"setFieldName\",\"newName\":\"Title\"}]}''\<rparr>]"
    using commit_version_check
            [of "\<lparr>cs_type = ''json0'', cs_v = 2, cs_data = JNull\<rparr>" sample_prisma
                "''tbl1''" "''fldA''" sample_services sample_core
                "JObj [(''v'', JNum 1), (''op'', JArr [JObj [(''name'', JStr ''setFieldName''),
                   (''newName'', JStr ''Title'')]])]", unfolded max1]
    unfolding serialised log by simp
  show ?thesis
    unfolding max1 using conflict appended by simp
qed

section \<open>Dispatch on the identifier prefix\<close>

text \<open>
  An id whose prefix is none of the five: \<open>createSnapshot\<close> reports success and writes
  nothing, and the commit of such a create succeeds with the document tables unchanged.
\<close>

theorem createSnapshot_unknown_prefix_counterexample:
  "take 3 ''xyz999'' \<notin> set [IdPrefix_Table sample_core, IdPrefix_Record sample_core,
       IdPrefix_Field sample_core, IdPrefix_View sample_core, IdPrefix_Aggregate sample_core]
   \<and> createSnapshot sample_services sample_core sample_docs ''tbl1'' ''xyz999''
         (Some (JObj [(''name'', JStr ''x'')]))
       = (Inr (), sample_docs)
   \<and> fst (commit sample_services sample_core sample_prisma ''tbl1'' ''xyz999''
         (JObj [(''v'', JNum 0),
                (''create'', JObj [(''type'', JStr ''json0''),
                                   (''data'', JObj [(''name'', JStr ''x'')])])])
         \<lparr>cs_type = ''json0'', cs_v = 1, cs_data = JObj [(''name'', JStr ''x'')]\<rparr>)
       = Inr True
   \<and> documents (snd (commit sample_services sample_core sample_prisma ''tbl1'' ''xyz999''
         (JObj [(''v'', JNum 0),
                (''create'', JObj [(''type'', JStr ''json0''),
                                   (''data'', JObj [(''name'', JStr ''x'')])])])
         \<lparr>cs_type = ''json0'', cs_v = 1, cs_data = JObj [(''name'', JStr ''x'')]\<rparr>))
       = sample_docs"
  by code_simp

text \<open>
  C4, as amended: the family of an id is read off its first three characters.
  \<open>createSnapshot\<close> hands an id with the table, record, field or view prefix to that
  family's creation service, and for every other prefix it writes nothing and succeeds.
  \<open>getSnapshotBulk\<close> on ids of a prefix that is none of record, field, view and
  aggregate answers with a placeholder of version 0 for each id. No error is raised for
  an unknown prefix.
\<close>

theorem createSnapshot_dispatch:
  "(take 3 docId = IdPrefix_Table co \<longrightarrow>
      createSnapshot svc co d collection docId snapshot = tableService_addTable svc d snapshot)
   \<and> (take 3 docId \<noteq> IdPrefix_Table co \<and> take 3 docId = IdPrefix_Record co \<longrightarrow>
        createSnapshot svc co d collection docId snapshot =
          recordService_addRecord svc d collection docId)
   \<and> (take 3 docId \<noteq> IdPrefix_Table co \<and> take 3 docId \<noteq> IdPrefix_Record co
        \<and> take 3 docId = IdPrefix_Field co \<longrightarrow>
        createSnapshot svc co d collection docId snapshot =
          fieldService_addField svc d collection snapshot)
   \<and> (take 3 docId \<noteq> IdPrefix_Table co \<and> take 3 docId \<noteq> IdPrefix_Record co
        \<and> take 3 docId \<noteq> IdPrefix_Field co \<and> take 3 docId = IdPrefix_View co \<longrightarrow>
        createSnapshot svc co d collection docId snapshot =
          viewService_addView svc d collection snapshot)
   \<and> (take 3 docId \<noteq> IdPrefix_Table co \<and> take 3 docId \<noteq> IdPrefix_Record co
        \<and> take 3 docId \<noteq> IdPrefix_Field co \<and> take 3 docId \<noteq> IdPrefix_View co \<longrightarrow>
        createSnapshot svc co d collection docId snapshot = (Inr (), d))
   \<and> (take 3 id0 \<noteq> IdPrefix_Record co \<and> take 3 id0 \<noteq> IdPrefix_Field co
        \<and> take 3 id0 \<noteq> IdPrefix_View co \<and> take 3 id0 \<noteq> IdPrefix_Aggregate co
        \<and> (\<forall>i\<in>set rest. take 3 i = take 3 id0) \<longrightarrow>
        getSnapshotBulk svc co d collection (id0 # rest) projection =
          Inr (map (\<lambda>i. \<lparr>snap_id = i, snap_v = 0, snap_type = None, snap_data = None,
                           snap_m = None\<rparr>) (id0 # rest)))"
proof (intro conjI impI)
  assume "take 3 id0 \<noteq> IdPrefix_Record co \<and> take 3 id0 \<noteq> IdPrefix_Field co
        \<and> take 3 id0 \<noteq> IdPrefix_View co \<and> take 3 id0 \<noteq> IdPrefix_Aggregate co
        \<and> (\<forall>i\<in>set rest. take 3 i = take 3 id0)"
  then show "getSnapshotBulk svc co d collection (id0 # rest) projection =
          Inr (map (\<lambda>i. \<lparr>snap_id = i, snap_v = 0, snap_type = None, snap_data = None,
                           snap_m = None\<rparr>) (id0 # rest))"
    using find_same_prefix [of rest id0]
    by (simp add: getSnapshotBulk_def Let_def bind_res_def snapshots_of_def del: find.simps)
qed (auto simp: createSnapshot_def Let_def)

theorem createSnapshot_dispatch_witness:
  "take 3 ''xyz999'' \<noteq> IdPrefix_Table sample_core
   \<and> take 3 ''xyz999'' \<noteq> IdPrefix_Record sample_core
   \<and> take 3 ''xyz999'' \<noteq> IdPrefix_Field sample_core
   \<and> take 3 ''xyz999'' \<noteq> IdPrefix_View sample_core
   \<and> take 3 ''xyz999'' \<noteq> IdPrefix_Aggregate sample_core
   \<and> take 3 ''rec3'' = IdPrefix_Record sample_core
   \<and> createSnapshot sample_services sample_core sample_docs ''tbl1'' ''rec3'' None
       = (Inr (), sample_docs\<lparr>other_tables := [''rec1'', ''rec2'', ''rec3'']\<rparr>)
   \<and> createSnapshot sample_services sample_core sample_docs ''tbl1'' ''xyz999'' None
       = (Inr (), sample_docs)
   \<and> getSnapshotBulk sample_services sample_core sample_docs ''tbl1'' [''xyz999'', ''xyz7'']
         None
       = Inr [\<lparr>snap_id = ''xyz999'', snap_v = 0, snap_type = None, snap_data = None,
               snap_m = None\<rparr>,
              \<lparr>snap_id = ''xyz7'', snap_v = 0, snap_type = None, snap_data = None,
               snap_m = None\<rparr>]"
  using createSnapshot_dispatch
          [of "''rec3''" sample_core sample_services sample_docs "''tbl1''" None
              "''xyz999''" "[''xyz7'']" None]
        createSnapshot_dispatch
          [of "''xyz999''" sample_core sample_services sample_docs "''tbl1''" None
              "''xyz999''" "[''xyz7'']" None]
  by (simp add: sample_core_def sample_services_def sample_docs_def)

section \<open>Documents that were never created\<close>

text \<open>
  C3: the table holds field \<open>fldA\<close> and no field \<open>fldC\<close>. Read alone, through
  \<open>getSnapshotBulk\<close> or \<open>getSnapshot\<close>, \<open>fldC\<close> gets the placeholder of version 0.
  Read together with \<open>fldA\<close>, it gets no snapshot at all: the placeholders are made
  only when no row was found.
\<close>

theorem getSnapshotBulk_mixed_batch:
  "getSnapshotBulk sample_services sample_core sample_docs ''tbl1'' [''fldA'', ''fldC''] None
     = Inr [\<lparr>snap_id = ''fldA'', snap_v = 1, snap_type = Some ''json0'',
             snap_data = Some (FieldData
               (JObj [(''id'', JStr ''fldA''), (''name'', JStr ''Name'')])
               (JObj [(''viw1'', JObj [(''width'', JNum 100), (''hidden'', JBool False)]),
                      (''viw2'', JObj [(''width'', JNum 80)])])),
             snap_m = None\<rparr>]
   \<and> getSnapshotBulk sample_services sample_core sample_docs ''tbl1'' [''fldC''] None
     = Inr [\<lparr>snap_id = ''fldC'', snap_v = 0, snap_type = None, snap_data = None,
             snap_m = None\<rparr>]
   \<and> getSnapshot sample_services sample_core sample_docs ''tbl1'' ''fldC'' None
     = Inr (Some \<lparr>snap_id = ''fldC'', snap_v = 0, snap_type = None, snap_data = None,
                  snap_m = None\<rparr>)"
  by code_simp

section \<open>The order of a bulk read\<close>






















section \<open>The configuration blobs of a view\<close>









section \<open>Stringify, then parse\<close>






















































section \<open>Setting a leaf of the column metadata\<close>














end
